theory Spec2Isabelle
  imports Complex_Main
begin

section \<open>Values, errors and arrays\<close>

text \<open>
  The estimator of \<^verbatim>\<open>pykCSD/KCSD3D.py\<close> is a Python class over numpy arrays.
  In the construction, the linear algebra and the cross-validation, floating-point
  numbers are modelled as reals (rounding, infinities and overflow are left out); the
  one floating-point value that decides control flow there, the not-a-number returned
  by \<^verbatim>\<open>np.mean\<close> on an empty array, is modelled as \<open>None\<close> where it can arise.
  The basis function \<^verbatim>\<open>step_rescale\<close>, which compares two sums of squares, is
  modelled on doubles, with rounding and overflow. Exceptions are values of the type
  \<open>error\<close>; a function that can raise returns \<open>error + 'a\<close>.
\<close>

datatype error =
    Exception string
  | AttributeError string
  | TypeError
  | ValueError
  | IndexError
  | ZeroDivisionError
  | OverflowError
  | LinAlgError
  | InvalidFoldCountError

text \<open>
  The values of the \<^verbatim>\<open>params\<close> dictionary are dynamically typed; the model
  knows \<^verbatim>\<open>None\<close>, floats and strings.
\<close>

datatype pyval = PyNone | PyFloat real | PyStr string

type_synonym params = "string \<rightharpoonup> pyval"

definition ebind :: "error + 'a \<Rightarrow> ('a \<Rightarrow> error + 'b) \<Rightarrow> error + 'b" where
  "ebind m f = (case m of Inl e \<Rightarrow> Inl e | Inr x \<Rightarrow> f x)"

definition dict_get :: "params \<Rightarrow> string \<Rightarrow> pyval \<Rightarrow> pyval" where
  \<comment> \<open>\<^verbatim>\<open>params.get(key, default)\<close>; the default has been evaluated by the caller.\<close>
  "dict_get d k dflt = (case d k of None \<Rightarrow> dflt | Some v \<Rightarrow> v)"

definition py_sub :: "pyval \<Rightarrow> pyval \<Rightarrow> error + pyval" where
  "py_sub a b = (case (a, b) of (PyFloat x, PyFloat y) \<Rightarrow> Inr (PyFloat (x - y)) | _ \<Rightarrow> Inl TypeError)"

definition py_add :: "pyval \<Rightarrow> pyval \<Rightarrow> error + pyval" where
  "py_add a b = (case (a, b) of (PyFloat x, PyFloat y) \<Rightarrow> Inr (PyFloat (x + y)) | _ \<Rightarrow> Inl TypeError)"

definition py_mul_float :: "real \<Rightarrow> pyval \<Rightarrow> error + pyval" where
  \<comment> \<open>a float literal times a value\<close>
  "py_mul_float c b = (case b of PyFloat y \<Rightarrow> Inr (PyFloat (c * y)) | _ \<Rightarrow> Inl TypeError)"

definition py_mul_int :: "nat \<Rightarrow> pyval \<Rightarrow> error + pyval" where
  \<comment> \<open>an int literal times a value: a string is repeated, \<^verbatim>\<open>None\<close> is a TypeError\<close>
  "py_mul_int c b =
     (case b of
        PyNone \<Rightarrow> Inl TypeError
      | PyFloat y \<Rightarrow> Inr (PyFloat (real c * y))
      | PyStr s \<Rightarrow> Inr (PyStr (concat (replicate c s))))"

definition py_div :: "pyval \<Rightarrow> pyval \<Rightarrow> error + pyval" where
  \<comment> \<open>Division by zero raises for Python floats; for numpy floats it gives an infinity
      or a not-a-number on which the conversion to int inside \<^verbatim>\<open>linspace\<close> raises.
      Both ends are one error here.\<close>
  "py_div a b =
     (case (a, b) of
        (PyFloat x, PyFloat y) \<Rightarrow> if y = 0 then Inl ZeroDivisionError else Inr (PyFloat (x / y))
      | _ \<Rightarrow> Inl TypeError)"

definition as_float :: "pyval \<Rightarrow> error + real" where
  "as_float v = (case v of PyFloat x \<Rightarrow> Inr x | _ \<Rightarrow> Inl TypeError)"

definition attr :: "'a option \<Rightarrow> string \<Rightarrow> error + 'a" where
  \<comment> \<open>reading an attribute of \<^verbatim>\<open>self\<close>: an attribute never assigned raises\<close>
  "attr a name = (case a of None \<Rightarrow> Inl (AttributeError name) | Some v \<Rightarrow> Inr v)"

subsection \<open>Arrays\<close>

text \<open>
  A one-dimensional array is a list. A two-dimensional array is its shape and its
  row-major buffer; an array of any dimension, as \<^verbatim>\<open>reshape\<close> and
  \<^verbatim>\<open>meshgrid\<close> return it, is a shape list and a buffer.
\<close>

type_synonym vec = "real list"

record mat =
  nrows :: nat
  ncols :: nat
  elems :: "real list"

record ndarray =
  shape :: "nat list"
  data :: "real list"

definition entry :: "mat \<Rightarrow> nat \<Rightarrow> nat \<Rightarrow> real" where
  "entry m i j = elems m ! (i * ncols m + j)"

definition tabulate2 :: "nat \<Rightarrow> nat \<Rightarrow> (nat \<Rightarrow> nat \<Rightarrow> real) \<Rightarrow> mat" where
  "tabulate2 r c f = \<lparr>nrows = r, ncols = c, elems = concat (map (\<lambda>i. map (f i) [0..<c]) [0..<r])\<rparr>"

definition identity :: "nat \<Rightarrow> mat" where
  "identity n = tabulate2 n n (\<lambda>i j. if i = j then 1 else 0)"

definition scalar_mul :: "real \<Rightarrow> mat \<Rightarrow> mat" where
  "scalar_mul c m = m\<lparr>elems := map (\<lambda>x. c * x) (elems m)\<rparr>"

definition bdim :: "nat \<Rightarrow> nat \<Rightarrow> nat option" where
  \<comment> \<open>numpy broadcasting of one dimension\<close>
  "bdim a b = (if a = b then Some a else if a = 1 then Some b else if b = 1 then Some a else None)"

definition np_add :: "mat \<Rightarrow> mat \<Rightarrow> error + mat" where
  \<comment> \<open>\<^verbatim>\<open>a + b\<close> on two-dimensional arrays, with broadcasting\<close>
  "np_add a b =
     (case (bdim (nrows a) (nrows b), bdim (ncols a) (ncols b)) of
        (Some r, Some c) \<Rightarrow>
          Inr (tabulate2 r c (\<lambda>i j.
                 entry a (if nrows a = 1 then 0 else i) (if ncols a = 1 then 0 else j)
               + entry b (if nrows b = 1 then 0 else i) (if ncols b = 1 then 0 else j)))
      | _ \<Rightarrow> Inl ValueError)"

definition transpose_m :: "mat \<Rightarrow> mat" where
  "transpose_m m = tabulate2 (ncols m) (nrows m) (\<lambda>i j. entry m j i)"

definition dot_mm :: "mat \<Rightarrow> mat \<Rightarrow> error + mat" where
  \<comment> \<open>\<^verbatim>\<open>dot\<close> of two two-dimensional arrays\<close>
  "dot_mm a b =
     (if ncols a \<noteq> nrows b then Inl ValueError
      else Inr (tabulate2 (nrows a) (ncols b)
                  (\<lambda>i j. sum_list (map (\<lambda>k. entry a i k * entry b k j) [0..<ncols a]))))"

definition dot_mv :: "mat \<Rightarrow> vec \<Rightarrow> error + vec" where
  \<comment> \<open>\<^verbatim>\<open>dot\<close> of a two-dimensional and a one-dimensional array\<close>
  "dot_mv a v =
     (if ncols a \<noteq> length v then Inl ValueError
      else Inr (map (\<lambda>i. sum_list (map (\<lambda>k. entry a i k * v ! k) [0..<ncols a])) [0..<nrows a]))"

definition column :: "mat \<Rightarrow> nat \<Rightarrow> error + vec" where
  \<comment> \<open>\<^verbatim>\<open>m[:, i]\<close>\<close>
  "column m i = (if i < ncols m then Inr (map (\<lambda>r. entry m r i) [0..<nrows m]) else Inl IndexError)"

definition item :: "vec \<Rightarrow> nat \<Rightarrow> error + real" where
  \<comment> \<open>\<^verbatim>\<open>v[i]\<close> for a non-negative index\<close>
  "item v i = (if i < length v then Inr (v ! i) else Inl IndexError)"

definition iadd :: "vec \<Rightarrow> vec \<Rightarrow> error + vec" where
  \<comment> \<open>\<^verbatim>\<open>out[:] += v\<close>: the right-hand side is broadcast to the shape of \<^verbatim>\<open>out\<close>\<close>
  "iadd out v =
     (if length v = length out then Inr (map2 (+) out v)
      else if length v = 1 then Inr (map (\<lambda>x. x + v ! 0) out)
      else Inl ValueError)"

definition reshape :: "vec \<Rightarrow> nat list \<Rightarrow> error + ndarray" where
  "reshape v shp = (if prod_list shp = length v then Inr \<lparr>shape = shp, data = v\<rparr> else Inl ValueError)"

definition py_trunc :: "real \<Rightarrow> int" where
  \<comment> \<open>\<^verbatim>\<open>int(x)\<close> rounds towards zero\<close>
  "py_trunc x = (if 0 \<le> x then \<lfloor>x\<rfloor> else \<lceil>x\<rceil>)"

definition linspace :: "real \<Rightarrow> real \<Rightarrow> real \<Rightarrow> vec" where
  \<comment> \<open>\<^verbatim>\<open>np.linspace(start, stop, num)\<close> of the numpy this Python 2 code ran on: the
      count is converted with \<^verbatim>\<open>int\<close>, a count below one gives the empty array,
      and the last point is set to \<^verbatim>\<open>stop\<close>.\<close>
  "linspace start stop num =
     (let n = py_trunc num in
      if n \<le> 0 then []
      else if n = 1 then [start]
      else (let step = (stop - start) / real_of_int (n - 1)
            in (map (\<lambda>i. real i * step + start) [0..<nat n])[nat n - 1 := stop]))"

definition meshgrid :: "vec \<Rightarrow> vec \<Rightarrow> vec \<Rightarrow> ndarray \<times> ndarray \<times> ndarray" where
  \<comment> \<open>\<^verbatim>\<open>np.meshgrid(x, y, z)\<close> with the default \<^verbatim>\<open>indexing='xy'\<close>: the three
      results have the shape \<open>(len y, len x, len z)\<close>.\<close>
  "meshgrid lx ly lz =
     (let shp = [length ly, length lx, length lz] in
      (\<lparr>shape = shp, data = concat (map (\<lambda>y. concat (map (\<lambda>x. map (\<lambda>z. x) lz) lx)) ly)\<rparr>,
       \<lparr>shape = shp, data = concat (map (\<lambda>y. concat (map (\<lambda>x. map (\<lambda>z. y) lz) lx)) ly)\<rparr>,
       \<lparr>shape = shp, data = concat (map (\<lambda>y. concat (map (\<lambda>x. map (\<lambda>z. z) lz) lx)) ly)\<rparr>))"

definition np_max :: "vec \<Rightarrow> error + real" where
  "np_max v = (if v = [] then Inl ValueError else Inr (Max (set v)))"

definition np_min :: "vec \<Rightarrow> error + real" where
  "np_min v = (if v = [] then Inl ValueError else Inr (Min (set v)))"

definition extent :: "pyval \<Rightarrow> pyval \<Rightarrow> error + real" where
  \<comment> \<open>\<^verbatim>\<open>np.max(a) - np.min(a) + r\<close>, on what the unpacking of line 81 can assign: the
      maximum and the minimum of a float are the float, those of a string or of
      \<^verbatim>\<open>None\<close> raise\<close>
  "extent a r = ebind (as_float a) (\<lambda>x. ebind (as_float r) (\<lambda>y. Inr (x - x + y)))"

section \<open>The estimator object\<close>

text \<open>
  An instance of \<^verbatim>\<open>KCSD3D\<close> is a bag of attributes that the methods assign one by
  one; an attribute that has not been assigned yet is \<open>None\<close>. The electrode positions
  are an array of shape \<open>(N, 3)\<close>: a list of triples.
\<close>

type_synonym position = "real \<times> real \<times> real"

record kcsd =
  elec_pos :: "position list option"
  sampled_pots :: "vec option"
  sigma :: "pyval option"
  n_sources :: "pyval option"
  xmax :: "pyval option"
  xmin :: "pyval option"
  ymax :: "pyval option"
  ymin :: "pyval option"
  zmax :: "pyval option"
  zmin :: "pyval option"
  lambd :: "pyval option"
  R_init :: "pyval option"
  h :: "pyval option"
  ext_X :: "pyval option"
  ext_Y :: "pyval option"
  ext_Z :: "pyval option"
  gdX :: "pyval option"
  gdY :: "pyval option"
  gdZ :: "pyval option"
  dist_table_density :: "nat option"
  source_type :: "pyval option"
  lambdas :: "vec option"
  space_X :: "ndarray option"
  space_Y :: "ndarray option"
  space_Z :: "ndarray option"
  b_pot_matrix :: "mat option"
  b_src_matrix :: "mat option"
  b_interp_pot_matrix :: "mat option"
  k_pot :: "mat option"
  k_interp_cross :: "mat option"
  interp_pot :: "mat option"
  estimated_pots :: "ndarray option"
  estimated_csd :: "ndarray option"
  X_src :: "pyval option"
  Y_src :: "pyval option"
  Z_src :: "pyval option"
  R :: "pyval option"
  dist_max :: "real option"

definition fresh :: kcsd where
  \<comment> \<open>the object as \<^verbatim>\<open>__init__\<close> receives it: no attribute assigned\<close>
  "fresh = \<lparr>elec_pos = None, sampled_pots = None, sigma = None, n_sources = None,
     xmax = None, xmin = None, ymax = None, ymin = None, zmax = None, zmin = None,
     lambd = None, R_init = None, h = None, ext_X = None, ext_Y = None, ext_Z = None,
     gdX = None, gdY = None, gdZ = None, dist_table_density = None, source_type = None,
     lambdas = None, space_X = None, space_Y = None, space_Z = None,
     b_pot_matrix = None, b_src_matrix = None, b_interp_pot_matrix = None,
     k_pot = None, k_interp_cross = None, interp_pot = None,
     estimated_pots = None, estimated_csd = None,
     X_src = None, Y_src = None, Z_src = None, R = None, dist_max = None\<rparr>"

text \<open>
  A method body is a list of statements. A statement either raises or returns the
  updated object; the object keeps what the statements before a raise assigned.
\<close>

type_synonym stmt = "kcsd \<Rightarrow> error + kcsd"

fun run :: "stmt list \<Rightarrow> kcsd \<Rightarrow> error option \<times> kcsd" where
  "run [] s = (None, s)"
| "run (c # cs) s = (case c s of Inl e \<Rightarrow> (Some e, s) | Inr s' \<Rightarrow> run cs s')"

section \<open>Construction\<close>

text \<open>
  \<^verbatim>\<open>validate_parameters\<close> is two \<^verbatim>\<open>if\<close> statements, each raising a plain
  \<^verbatim>\<open>Exception\<close>. The model returns, with the outcome, the conditions that were
  evaluated, in order: a raise leaves the function, so what follows it is not evaluated.
\<close>

datatype check = CountCheck | MinimumCheck

definition validate_parameters :: "position list \<Rightarrow> vec \<Rightarrow> check list \<times> (error + unit)" where
  "validate_parameters ep sp =
     (if length ep \<noteq> length sp
      then ([CountCheck],
            Inl (Exception ''Number of measured potentials is not equal to electrode number!''))
      else if length ep < 4
      then ([CountCheck, MinimumCheck],
            Inl (Exception ''Number of electrodes must be at least 4!''))
      else ([CountCheck, MinimumCheck], Inr ()))"

text \<open>The stubs: a body that is \<^verbatim>\<open>pass\<close> returns \<^verbatim>\<open>None\<close>.\<close>

definition calc_min_dist :: "position list \<Rightarrow> pyval" where
  "calc_min_dist ep = PyNone"

definition make_src_3D ::
  "ndarray \<Rightarrow> ndarray \<Rightarrow> ndarray \<Rightarrow> pyval \<Rightarrow> pyval \<Rightarrow> pyval \<Rightarrow> pyval \<Rightarrow> pyval \<Rightarrow> pyval" where
  "make_src_3D X Y Z n_src ext_x ext_y ext_z r_init = PyNone"

definition unpack7 :: "pyval \<Rightarrow> error + pyval list" where
  \<comment> \<open>unpacking into seven targets: \<^verbatim>\<open>None\<close> and floats are not iterable, a string
      gives its characters\<close>
  "unpack7 v =
     (case v of
        PyNone \<Rightarrow> Inl TypeError
      | PyFloat _ \<Rightarrow> Inl TypeError
      | PyStr s \<Rightarrow> if length s = 7 then Inr (map (\<lambda>c. PyStr [c]) s) else Inl ValueError)"

definition grid_axis :: "pyval \<Rightarrow> pyval \<Rightarrow> pyval \<Rightarrow> pyval \<Rightarrow> pyval \<Rightarrow> error + vec" where
  \<comment> \<open>\<^verbatim>\<open>np.linspace(start, stop, (hi - lo)/gd + 1)\<close>; the number of points is
      computed over the reals, where a quotient in doubles can fall just below a whole
      number and lose a point\<close>
  "grid_axis start stop hi lo gd =
     ebind (py_sub hi lo) (\<lambda>d.
     ebind (py_div d gd) (\<lambda>q.
     ebind (py_add q (PyFloat 1)) (\<lambda>num.
     ebind (as_float start) (\<lambda>a.
     ebind (as_float stop) (\<lambda>b.
     ebind (as_float num) (\<lambda>n. Inr (linspace a b n)))))))"

definition grid_axes ::
  "pyval \<Rightarrow> pyval \<Rightarrow> pyval \<Rightarrow> pyval \<Rightarrow> pyval \<Rightarrow> pyval \<Rightarrow> pyval \<Rightarrow> pyval \<Rightarrow> pyval
     \<Rightarrow> error + vec \<times> vec \<times> vec" where
  \<comment> \<open>lines 76 to 78 of \<^verbatim>\<open>set_parameters\<close>: \<^verbatim>\<open>lin_x\<close>, \<^verbatim>\<open>lin_y\<close>, \<^verbatim>\<open>lin_z\<close>;
      the third \<^verbatim>\<open>linspace\<close> stops at \<^verbatim>\<open>self.ymax\<close>\<close>
  "grid_axes x_min x_max y_min y_max z_min z_max gd_x gd_y gd_z =
     ebind (grid_axis x_min x_max x_max x_min gd_x) (\<lambda>lin_x.
     ebind (grid_axis y_min y_max y_max y_min gd_y) (\<lambda>lin_y.
     ebind (grid_axis z_min y_max z_max z_min gd_z) (\<lambda>lin_z.
     Inr (lin_x, lin_y, lin_z))))"

definition default_lambdas :: vec where
  \<comment> \<open>\<^verbatim>\<open>np.array([1.0 / 2**n for n in xrange(0, 20)])\<close>\<close>
  "default_lambdas = map (\<lambda>n. 1 / 2 ^ n) [0..<20]"

definition set_parameters :: "params \<Rightarrow> kcsd \<Rightarrow> error option \<times> kcsd" where
  "set_parameters p =
     run [
       (\<lambda>s. Inr (s\<lparr>sigma := Some (dict_get p ''sigma'' (PyFloat 1))\<rparr>)),
       (\<lambda>s. Inr (s\<lparr>n_sources := Some (dict_get p ''n_sources'' (PyFloat 300))\<rparr>)),
       (\<lambda>s. ebind (attr (elec_pos s) ''elec_pos'') (\<lambda>ep.
             ebind (np_max (map fst ep)) (\<lambda>m.
             Inr (s\<lparr>xmax := Some (dict_get p ''x_max'' (PyFloat m))\<rparr>)))),
       (\<lambda>s. ebind (attr (elec_pos s) ''elec_pos'') (\<lambda>ep.
             ebind (np_min (map fst ep)) (\<lambda>m.
             Inr (s\<lparr>xmin := Some (dict_get p ''x_min'' (PyFloat m))\<rparr>)))),
       (\<lambda>s. ebind (attr (elec_pos s) ''elec_pos'') (\<lambda>ep.
             ebind (np_max (map (\<lambda>q. fst (snd q)) ep)) (\<lambda>m.
             Inr (s\<lparr>ymax := Some (dict_get p ''y_max'' (PyFloat m))\<rparr>)))),
       (\<lambda>s. ebind (attr (elec_pos s) ''elec_pos'') (\<lambda>ep.
             ebind (np_min (map (\<lambda>q. fst (snd q)) ep)) (\<lambda>m.
             Inr (s\<lparr>ymin := Some (dict_get p ''y_min'' (PyFloat m))\<rparr>)))),
       (\<lambda>s. ebind (attr (elec_pos s) ''elec_pos'') (\<lambda>ep.
             ebind (np_max (map (\<lambda>q. snd (snd q)) ep)) (\<lambda>m.
             Inr (s\<lparr>zmax := Some (dict_get p ''z_max'' (PyFloat m))\<rparr>)))),
       (\<lambda>s. ebind (attr (elec_pos s) ''elec_pos'') (\<lambda>ep.
             ebind (np_min (map (\<lambda>q. snd (snd q)) ep)) (\<lambda>m.
             Inr (s\<lparr>zmin := Some (dict_get p ''z_min'' (PyFloat m))\<rparr>)))),
       (\<lambda>s. Inr (s\<lparr>lambd := Some (dict_get p ''lambda'' (PyFloat 0))\<rparr>)),
       \<comment> \<open>line 55: the default, \<^verbatim>\<open>2*KCSD3D.calc_min_dist(self.elec_pos)\<close>, is an argument
           of \<^verbatim>\<open>params.get\<close> and is evaluated before the call\<close>
       (\<lambda>s. ebind (attr (elec_pos s) ''elec_pos'') (\<lambda>ep.
             ebind (py_mul_int 2 (calc_min_dist ep)) (\<lambda>d.
             Inr (s\<lparr>R_init := Some (dict_get p ''R_init'' d)\<rparr>)))),
       (\<lambda>s. Inr (s\<lparr>h := Some (dict_get p ''h'' (PyFloat 1))\<rparr>)),
       (\<lambda>s. Inr (s\<lparr>ext_X := Some (dict_get p ''ext_X'' (PyFloat 0))\<rparr>)),
       (\<lambda>s. Inr (s\<lparr>ext_Y := Some (dict_get p ''ext_Y'' (PyFloat 0))\<rparr>)),
       (\<lambda>s. Inr (s\<lparr>ext_Z := Some (dict_get p ''ext_Z'' (PyFloat 0))\<rparr>)),
       (\<lambda>s. ebind (attr (xmax s) ''xmax'') (\<lambda>hi. ebind (attr (xmin s) ''xmin'') (\<lambda>lo.
             ebind (py_sub hi lo) (\<lambda>d. ebind (py_mul_float (1 / 100) d) (\<lambda>g.
             Inr (s\<lparr>gdX := Some (dict_get p ''gdX'' g)\<rparr>)))))),
       (\<lambda>s. ebind (attr (ymax s) ''ymax'') (\<lambda>hi. ebind (attr (ymin s) ''ymin'') (\<lambda>lo.
             ebind (py_sub hi lo) (\<lambda>d. ebind (py_mul_float (1 / 100) d) (\<lambda>g.
             Inr (s\<lparr>gdY := Some (dict_get p ''gdY'' g)\<rparr>)))))),
       (\<lambda>s. ebind (attr (zmax s) ''zmax'') (\<lambda>hi. ebind (attr (zmin s) ''zmin'') (\<lambda>lo.
             ebind (py_sub hi lo) (\<lambda>d. ebind (py_mul_float (1 / 100) d) (\<lambda>g.
             Inr (s\<lparr>gdZ := Some (dict_get p ''gdZ'' g)\<rparr>)))))),
       (\<lambda>s. Inr (s\<lparr>dist_table_density := Some 100\<rparr>)),
       (\<lambda>s. case p ''source_type'' of
               Some v \<Rightarrow>
                 if v = PyStr ''gaussian'' \<or> v = PyStr ''step''
                 then Inr (s\<lparr>source_type := Some v\<rparr>)
                 else Inl (Exception ''Incorrect source type!'')
             | None \<Rightarrow> Inr (s\<lparr>source_type := Some (PyStr ''gaussian'')\<rparr>)),
       (\<lambda>s. Inr (s\<lparr>lambdas := Some default_lambdas\<rparr>)),
       (\<lambda>s. ebind (attr (xmin s) ''xmin'') (\<lambda>x0. ebind (attr (xmax s) ''xmax'') (\<lambda>x1.
             ebind (attr (gdX s) ''gdX'') (\<lambda>gx.
             ebind (attr (ymin s) ''ymin'') (\<lambda>y0. ebind (attr (ymax s) ''ymax'') (\<lambda>y1.
             ebind (attr (gdY s) ''gdY'') (\<lambda>gy.
             ebind (attr (zmin s) ''zmin'') (\<lambda>z0. ebind (attr (zmax s) ''zmax'') (\<lambda>z1.
             ebind (attr (gdZ s) ''gdZ'') (\<lambda>gz.
             ebind (grid_axes x0 x1 y0 y1 z0 z1 gx gy gz) (\<lambda>(lin_x, lin_y, lin_z).
             case meshgrid lin_x lin_y lin_z of (X, Y, Z) \<Rightarrow>
               Inr (s\<lparr>space_X := Some X, space_Y := Some Y, space_Z := Some Z\<rparr>)))))))))))),
       (\<lambda>s. ebind (attr (space_X s) ''space_X'') (\<lambda>X. ebind (attr (space_Y s) ''space_Y'') (\<lambda>Y.
             ebind (attr (space_Z s) ''space_Z'') (\<lambda>Z.
             ebind (attr (n_sources s) ''n_sources'') (\<lambda>n.
             ebind (attr (ext_X s) ''ext_X'') (\<lambda>ex. ebind (attr (ext_Y s) ''ext_Y'') (\<lambda>ey.
             ebind (attr (ext_Z s) ''ext_Z'') (\<lambda>ez. ebind (attr (R_init s) ''R_init'') (\<lambda>ri.
             ebind (unpack7 (make_src_3D X Y Z n ex ey ez ri)) (\<lambda>vs.
             Inr (s\<lparr>X_src := Some (vs ! 0), Y_src := Some (vs ! 1), Z_src := Some (vs ! 2),
                     R := Some (vs ! 6)\<rparr>))))))))))),
       (\<lambda>s. ebind (attr (X_src s) ''X_src'') (\<lambda>xs. ebind (attr (Y_src s) ''Y_src'') (\<lambda>ys.
             ebind (attr (Z_src s) ''Z_src'') (\<lambda>zs. ebind (attr (R s) ''R'') (\<lambda>r.
             ebind (extent xs r) (\<lambda>Lx. ebind (extent ys r) (\<lambda>Ly. ebind (extent zs r) (\<lambda>Lz.
             Inr (s\<lparr>dist_max := Some (sqrt (Lx\<^sup>2 + Ly\<^sup>2 + Lz\<^sup>2))\<rparr>)))))))))
     ]"

definition init :: "position list \<Rightarrow> vec \<Rightarrow> params \<Rightarrow> error option \<times> kcsd" where
  \<comment> \<open>\<^verbatim>\<open>__init__\<close>, on the object without attributes; the object is returned with the
      outcome, as the raise leaves it\<close>
  "init ep sp p =
     (case snd (validate_parameters ep sp) of
        Inl e \<Rightarrow> (Some e, fresh)
      | Inr _ \<Rightarrow> set_parameters p (fresh\<lparr>elec_pos := Some ep, sampled_pots := Some sp\<rparr>))"

section \<open>Basis functions\<close>










section \<open>Kernel matrices\<close>

text \<open>
  The methods that fill the basis matrices are stubs: they return without assigning
  anything, so \<^verbatim>\<open>calculate_matrices\<close> works on the basis matrices the object
  already has.
\<close>

definition create_dist_table :: stmt where
  "create_dist_table s = Inr s"

definition calculate_b_pot_matrix_3D :: stmt where
  "calculate_b_pot_matrix_3D s = Inr s"

definition calculate_b_pot_matrix :: stmt where
  "calculate_b_pot_matrix s = calculate_b_pot_matrix_3D s"

definition make_b_src_matrix_3D :: stmt where
  "make_b_src_matrix_3D s = Inr s"

definition calculate_b_src_matrix :: stmt where
  "calculate_b_src_matrix s = make_b_src_matrix_3D s"

definition make_b_interp_pot_matrix_3D :: stmt where
  "make_b_interp_pot_matrix_3D s = Inr s"

definition calculate_b_interp_pot_matrix :: stmt where
  "calculate_b_interp_pot_matrix s = make_b_interp_pot_matrix_3D s"

definition assign_k_pot :: stmt where
  \<comment> \<open>\<^verbatim>\<open>self.k_pot = dot(transpose(self.b_pot_matrix), self.b_pot_matrix)\<close>\<close>
  "assign_k_pot s =
     ebind (attr (b_pot_matrix s) ''b_pot_matrix'') (\<lambda>b.
     ebind (dot_mm (transpose_m b) b) (\<lambda>k. Inr (s\<lparr>k_pot := Some k\<rparr>)))"

definition assign_k_interp_cross :: stmt where
  \<comment> \<open>\<^verbatim>\<open>self.k_interp_cross = np.dot(self.b_src_matrix, self.b_pot_matrix)\<close>\<close>
  "assign_k_interp_cross s =
     ebind (attr (b_src_matrix s) ''b_src_matrix'') (\<lambda>bs.
     ebind (attr (b_pot_matrix s) ''b_pot_matrix'') (\<lambda>b.
     ebind (dot_mm bs b) (\<lambda>k. Inr (s\<lparr>k_interp_cross := Some k\<rparr>))))"

definition assign_interp_pot :: stmt where
  \<comment> \<open>\<^verbatim>\<open>self.interp_pot = dot(self.b_interp_pot_matrix, self.b_pot_matrix)\<close>\<close>
  "assign_interp_pot s =
     ebind (attr (b_interp_pot_matrix s) ''b_interp_pot_matrix'') (\<lambda>bi.
     ebind (attr (b_pot_matrix s) ''b_pot_matrix'') (\<lambda>b.
     ebind (dot_mm bi b) (\<lambda>k. Inr (s\<lparr>interp_pot := Some k\<rparr>))))"

definition calculate_matrices :: "kcsd \<Rightarrow> error option \<times> kcsd" where
  "calculate_matrices =
     run [
       create_dist_table,
       calculate_b_pot_matrix,
       assign_k_pot,
       calculate_b_src_matrix,
       assign_k_interp_cross,
       calculate_b_interp_pot_matrix,
       assign_interp_pot
     ]"

section \<open>Estimation\<close>

text \<open>
  \<^verbatim>\<open>np.linalg.inv\<close> belongs to numpy: the estimators take it as the parameter
  \<open>linalg_inv\<close>, which returns a matrix or raises.
\<close>

definition regularized :: "mat \<Rightarrow> pyval \<Rightarrow> error + mat" where
  \<comment> \<open>\<^verbatim>\<open>self.k_pot + self.lambd * identity(self.k_pot.shape[0])\<close>\<close>
  "regularized k l = ebind (as_float l) (\<lambda>c. np_add k (scalar_mul c (identity (nrows k))))"

definition weights :: "(mat \<Rightarrow> error + mat) \<Rightarrow> kcsd \<Rightarrow> error + vec" where
  \<comment> \<open>\<^verbatim>\<open>k_inv\<close> and \<^verbatim>\<open>beta\<close>: lines 93 and 94 of \<^verbatim>\<open>estimate_pots\<close>, the same
      text as lines 109 and 110 of \<^verbatim>\<open>estimate_csd\<close>\<close>
  "weights linalg_inv s =
     ebind (attr (k_pot s) ''k_pot'') (\<lambda>k.
     ebind (attr (lambd s) ''lambd'') (\<lambda>l.
     ebind (regularized k l) (\<lambda>m.
     ebind (linalg_inv m) (\<lambda>k_inv.
     ebind (attr (sampled_pots s) ''sampled_pots'') (\<lambda>y.
     dot_mv k_inv y)))))"

fun accumulate :: "vec \<Rightarrow> mat \<Rightarrow> nat list \<Rightarrow> vec \<Rightarrow> error + vec" where
  \<comment> \<open>\<^verbatim>\<open>for i in xrange(...): output[:] += beta[i]*estimation_table[:,i]\<close>\<close>
  "accumulate beta table [] out = Inr out"
| "accumulate beta table (i # is) out =
     ebind (item beta i) (\<lambda>b.
     ebind (column table i) (\<lambda>col.
     ebind (iadd out (map (\<lambda>x. b * x) col)) (\<lambda>out'.
     accumulate beta table is out')))"

definition unpack3 :: "nat list \<Rightarrow> error + nat \<times> nat \<times> nat" where
  \<comment> \<open>\<^verbatim>\<open>nx,ny,nz = self.space_X.shape\<close>\<close>
  "unpack3 shp = (case shp of [a, b, c] \<Rightarrow> Inr (a, b, c) | _ \<Rightarrow> Inl ValueError)"

definition pots_output :: "kcsd \<Rightarrow> mat \<Rightarrow> vec \<Rightarrow> error + ndarray" where
  \<comment> \<open>lines 96 to 102 of \<^verbatim>\<open>estimate_pots\<close>\<close>
  "pots_output s table beta =
     ebind (attr (space_X s) ''space_X'') (\<lambda>X.
     ebind (unpack3 (shape X)) (\<lambda>(nx, ny, nz).
     ebind (attr (elec_pos s) ''elec_pos'') (\<lambda>ep.
     ebind (accumulate beta table [0..<length ep] (replicate (nx * ny) 0)) (\<lambda>output.
     reshape output [nx, ny]))))"

definition csd_output :: "kcsd \<Rightarrow> mat \<Rightarrow> vec \<Rightarrow> error + ndarray" where
  \<comment> \<open>lines 112 to 118 of \<^verbatim>\<open>estimate_csd\<close>\<close>
  "csd_output s table beta =
     ebind (attr (space_X s) ''space_X'') (\<lambda>X.
     ebind (unpack3 (shape X)) (\<lambda>(nx, ny, nz).
     ebind (attr (elec_pos s) ''elec_pos'') (\<lambda>ep.
     ebind (accumulate beta table [0..<length ep] (replicate (nx * ny) 0)) (\<lambda>output.
     reshape output [nx, ny, nz]))))"

definition estimate_pots :: "(mat \<Rightarrow> error + mat) \<Rightarrow> kcsd \<Rightarrow> (error + ndarray) \<times> kcsd" where
  "estimate_pots linalg_inv s =
     (case ebind (attr (interp_pot s) ''interp_pot'') (\<lambda>estimation_table.
           ebind (weights linalg_inv s) (\<lambda>beta.
           pots_output s estimation_table beta)) of
        Inl e \<Rightarrow> (Inl e, s)
      | Inr out \<Rightarrow> (Inr out, s\<lparr>estimated_pots := Some out\<rparr>))"

definition estimate_csd :: "(mat \<Rightarrow> error + mat) \<Rightarrow> kcsd \<Rightarrow> (error + ndarray) \<times> kcsd" where
  "estimate_csd linalg_inv s =
     (case ebind (attr (k_interp_cross s) ''k_interp_cross'') (\<lambda>estimation_table.
           ebind (weights linalg_inv s) (\<lambda>beta.
           csd_output s estimation_table beta)) of
        Inl e \<Rightarrow> (Inl e, s)
      | Inr out \<Rightarrow> (Inr out, s\<lparr>estimated_csd := Some out\<rparr>))"

section \<open>Cross-validation\<close>

text \<open>
  \<^verbatim>\<open>choose_lambda\<close> calls \<^verbatim>\<open>cross_validation\<close> of the module
  \<^verbatim>\<open>cross_validation\<close>, which is not part of the file. It is the parameter \<open>cv\<close>.
  The call passes the arrays \<^verbatim>\<open>self.sampled_pots\<close> and \<^verbatim>\<open>self.k_pot\<close> by
  reference, so \<open>cv\<close> returns, with its outcome, the contents of the two arrays after
  the call; \<open>'w\<close> is whatever else the callee reads and changes (a random generator).
\<close>

type_synonym 'w cv =
  "real \<Rightarrow> vec \<Rightarrow> mat \<Rightarrow> nat \<Rightarrow> int \<Rightarrow> 'w \<Rightarrow> (error + real) \<times> vec \<times> mat \<times> 'w"

definition cross_validation ::
  "(real \<Rightarrow> vec \<Rightarrow> mat \<Rightarrow> nat \<Rightarrow> nat \<Rightarrow> 'w \<Rightarrow> real \<times> 'w) \<Rightarrow> 'w cv" where
  \<comment> \<open>Modelled from the spec: the module \<^verbatim>\<open>cross_validation\<close> is missing. The spec
      has the fold count rejected with InvalidFoldCountError when it is below one or
      above the number of electrodes, and the error of a candidate computed from the
      measurements and the kernel matrix, which are read and not written. The
      computation of the error over the folds is the parameter \<open>fold_error\<close>.\<close>
  "cross_validation fold_error lam pots k n_elec n_folds w =
     (if n_folds < 1 \<or> int n_elec < n_folds then (Inl InvalidFoldCountError, pots, k, w)
      else (case fold_error lam pots k n_elec (nat n_folds) w of
              (err, w') \<Rightarrow> (Inr err, pots, k, w')))"

definition np_mean :: "vec \<Rightarrow> real option" where
  \<comment> \<open>the mean of the empty array is not-a-number: \<open>None\<close>\<close>
  "np_mean v = (if v = [] then None else Some (sum_list v / real (length v)))"

definition py_lt :: "real option \<Rightarrow> real option \<Rightarrow> bool" where
  \<comment> \<open>a comparison with not-a-number is false\<close>
  "py_lt a b = (case (a, b) of (Some x, Some y) \<Rightarrow> x < y | _ \<Rightarrow> False)"

definition py_eq :: "real option \<Rightarrow> real option \<Rightarrow> bool" where
  "py_eq a b = (case (a, b) of (Some x, Some y) \<Rightarrow> x = y | _ \<Rightarrow> False)"

definition py_min :: "real option list \<Rightarrow> error + real option" where
  \<comment> \<open>the builtin \<^verbatim>\<open>min\<close>: the first item, replaced by each later item that is
      smaller; the empty sequence raises\<close>
  "py_min xs =
     (case xs of
        [] \<Rightarrow> Inl ValueError
      | x # rest \<Rightarrow> Inr (foldl (\<lambda>m y. if py_lt y m then y else m) x rest))"

definition masked :: "vec \<Rightarrow> bool list \<Rightarrow> vec" where
  \<comment> \<open>\<^verbatim>\<open>a[mask]\<close> for a boolean mask of the length of \<^verbatim>\<open>a\<close>\<close>
  "masked v sel = map fst (filter snd (zip v sel))"

fun inner_loop ::
  "'w cv \<Rightarrow> real \<Rightarrow> int \<Rightarrow> nat list \<Rightarrow> vec \<Rightarrow> kcsd \<Rightarrow> 'w \<Rightarrow> (error + vec) \<times> kcsd \<times> 'w" where
  \<comment> \<open>\<^verbatim>\<open>for j in xrange(n_iter): errors_iter[j] = cv.cross_validation(...)\<close>\<close>
  "inner_loop cv lam n_folds [] errors_iter s w = (Inr errors_iter, s, w)"
| "inner_loop cv lam n_folds (j # js) errors_iter s w =
     (case attr (sampled_pots s) ''sampled_pots'' of
        Inl e \<Rightarrow> (Inl e, s, w)
      | Inr y \<Rightarrow>
     (case attr (k_pot s) ''k_pot'' of
        Inl e \<Rightarrow> (Inl e, s, w)
      | Inr k \<Rightarrow>
     (case attr (elec_pos s) ''elec_pos'' of
        Inl e \<Rightarrow> (Inl e, s, w)
      | Inr ep \<Rightarrow>
     (case cv lam y k (length ep) n_folds w of
        (r, y', k', w') \<Rightarrow>
          (let s' = s\<lparr>sampled_pots := Some y', k_pot := Some k'\<rparr> in
           case r of
             Inl e \<Rightarrow> (Inl e, s', w')
           | Inr v \<Rightarrow> inner_loop cv lam n_folds js (errors_iter[j := v]) s' w')))))"

fun outer_loop ::
  "'w cv \<Rightarrow> int \<Rightarrow> nat \<Rightarrow> (nat \<times> real) list \<Rightarrow> real option list \<Rightarrow> vec \<Rightarrow> kcsd \<Rightarrow> 'w
     \<Rightarrow> (error + real option list) \<times> kcsd \<times> 'w" where
  \<comment> \<open>\<^verbatim>\<open>for i, lambd in enumerate(lambdas): ...; errors[i] = np.mean(errors_iter)\<close>\<close>
  "outer_loop cv n_folds n_iter [] errors errors_iter s w = (Inr errors, s, w)"
| "outer_loop cv n_folds n_iter ((i, lam) # rest) errors errors_iter s w =
     (case inner_loop cv lam n_folds [0..<n_iter] errors_iter s w of
        (Inl e, s', w') \<Rightarrow> (Inl e, s', w')
      | (Inr errors_iter', s', w') \<Rightarrow>
          outer_loop cv n_folds n_iter rest (errors[i := np_mean errors_iter']) errors_iter' s' w')"

definition cv_errors ::
  "'w cv \<Rightarrow> vec \<Rightarrow> int \<Rightarrow> int \<Rightarrow> kcsd \<Rightarrow> 'w \<Rightarrow> (error + real option list) \<times> kcsd \<times> 'w" where
  \<comment> \<open>lines 309 to 316: the array \<^verbatim>\<open>errors\<close> after the loops; \<^verbatim>\<open>np.zeros\<close> raises
      on a negative length\<close>
  "cv_errors cv lams n_folds n_iter s w =
     (if n_iter < 0 then (Inl ValueError, s, w)
      else outer_loop cv n_folds (nat n_iter) (enumerate 0 lams)
             (replicate (length lams) (Some 0)) (replicate (nat n_iter) 0) s w)"

definition choose_lambda ::
  "'w cv \<Rightarrow> vec \<Rightarrow> int \<Rightarrow> int \<Rightarrow> kcsd \<Rightarrow> 'w \<Rightarrow> (error + real) \<times> kcsd \<times> 'w" where
  "choose_lambda cv lams n_folds n_iter s w =
     (case cv_errors cv lams n_folds n_iter s w of
        (Inl e, s', w') \<Rightarrow> (Inl e, s', w')
      | (Inr errors, s', w') \<Rightarrow>
          (ebind (py_min errors) (\<lambda>m. item (masked lams (map (\<lambda>e. py_eq e m) errors)) 0),
           s', w'))"



definition reads_only :: "'w cv \<Rightarrow> bool" where
  \<comment> \<open>the callee leaves the two arrays it is handed as they were\<close>
  "reads_only cv =
     (\<forall>lam y k n nf w. fst (snd (cv lam y k n nf w)) = y \<and> fst (snd (snd (cv lam y k n nf w))) = k)"

section \<open>Example objects\<close>

text \<open>Concrete objects and inverses on which the theorems below are instantiated.\<close>

definition sB :: kcsd where
  \<comment> \<open>an object with a 2 by 2 matrix of basis potentials\<close>
  "sB = fresh\<lparr>b_pot_matrix := Some \<lparr>nrows = 2, ncols = 2, elems = [1, 2, 3, 4]\<rparr>\<rparr>"

definition sW :: kcsd where
  \<comment> \<open>two electrodes, the identity as kernel matrix, \<open>\<lambda> = 1\<close>\<close>
  "sW = fresh\<lparr>k_pot := Some \<lparr>nrows = 2, ncols = 2, elems = [1, 0, 0, 1]\<rparr>,
               lambd := Some (PyFloat 1), sampled_pots := Some [2, 4]\<rparr>"

definition halves :: "mat \<Rightarrow> error + mat" where
  \<comment> \<open>the inverse of twice the 2 by 2 identity\<close>
  "halves m = Inr \<lparr>nrows = 2, ncols = 2, elems = [1 / 2, 0, 0, 1 / 2]\<rparr>"

definition ones :: "nat \<Rightarrow> nat \<Rightarrow> mat" where
  \<comment> \<open>an estimation table of ones\<close>
  "ones r c = tabulate2 r c (\<lambda>i j. 1)"

definition sG :: "mat \<Rightarrow> kcsd" where
  \<comment> \<open>four electrodes, a grid of shape \<open>(2, 2, 2)\<close>, the identity as kernel matrix,
      \<open>\<lambda> = 1\<close>, and the given estimation table\<close>
  "sG table = fresh\<lparr>
     elec_pos := Some [(0, 0, 0), (1, 0, 0), (0, 1, 0), (0, 0, 1)],
     sampled_pots := Some [2, 2, 2, 2],
     lambd := Some (PyFloat 1),
     k_pot := Some (identity 4),
     space_X := Some \<lparr>shape = [2, 2, 2], data = [0, 0, 1, 1, 0, 0, 1, 1]\<rparr>,
     interp_pot := Some table,
     k_interp_cross := Some table\<rparr>"

definition half_identity :: "mat \<Rightarrow> error + mat" where
  \<comment> \<open>the inverse of twice the identity\<close>
  "half_identity m = Inr (scalar_mul (1 / 2) (identity (nrows m)))"

definition tie_error :: "real \<Rightarrow> vec \<Rightarrow> mat \<Rightarrow> nat \<Rightarrow> nat \<Rightarrow> unit \<Rightarrow> real \<times> unit" where
  \<comment> \<open>an error that is minimal, and the same, for every \<open>\<lambda> \<le> 1/2\<close>\<close>
  "tie_error lam y k n nf w = (if lam \<le> 1 / 2 then 0 else 1, w)"


section \<open>Properties of the construction\<close>

lemma validate_ok_iff:
  "snd (validate_parameters ep sp) = Inr () \<longleftrightarrow> length ep = length sp \<and> 4 \<le> length ep"
  by (auto simp: validate_parameters_def)

text \<open>
  C6, as amended. When the number of electrodes differs from the number of sampled
  potentials, or is below four, \<^verbatim>\<open>__init__\<close> raises the exception of
  \<^verbatim>\<open>validate_parameters\<close> and the object has no attribute at all: nothing was
  assigned or derived. The count comparison is evaluated for every input; the
  minimum-count comparison is evaluated only when the counts agree.
\<close>

theorem validation_fails_first:
  "length ep \<noteq> length sp \<or> length ep < 4 \<Longrightarrow>
     (\<exists>msg. init ep sp p = (Some (Exception msg), fresh))
     \<and> fst (validate_parameters ep sp) =
         (if length ep \<noteq> length sp then [CountCheck] else [CountCheck, MinimumCheck])"
  by (auto simp: init_def validate_parameters_def)

theorem validation_fails_first_witness:
  "length [(0,0,0),(1,0,0),(0,1,0)::position] < 4
   \<and> init [(0,0,0),(1,0,0),(0,1,0)] [0,0] Map.empty
       = (Some (Exception ''Number of measured potentials is not equal to electrode number!''),
          fresh)
   \<and> fst (validate_parameters [(0,0,0),(1,0,0),(0,1,0)] [0,0]) = [CountCheck]"
  using validation_fails_first [of "[(0,0,0),(1,0,0),(0,1,0)]" "[0,0]" Map.empty]
  by (simp add: init_def validate_parameters_def)

text \<open>
  C6 as stated fails: three electrodes with two potentials violate both conditions; the
  count comparison raises and the minimum-count comparison is not evaluated.
\<close>

theorem validation_skips_second_check:
  "validate_parameters [(0,0,0),(1,0,0),(0,1,0)] [0,0]
     = ([CountCheck],
        Inl (Exception ''Number of measured potentials is not equal to electrode number!''))"
  by (simp add: validate_parameters_def)

text \<open>
  C10. For every input that passes the validation, whatever \<^verbatim>\<open>params\<close> holds,
  \<^verbatim>\<open>__init__\<close> raises TypeError at the assignment of \<^verbatim>\<open>R_init\<close>: the attribute
  \<^verbatim>\<open>lambd\<close> of the line before is assigned, \<^verbatim>\<open>R_init\<close> is not.
\<close>

theorem init_raises_type_error:
  "snd (validate_parameters ep sp) = Inr () \<Longrightarrow>
     fst (init ep sp p) = Some TypeError \<and> R_init (snd (init ep sp p)) = None
     \<and> lambd (snd (init ep sp p)) = Some (dict_get p ''lambda'' (PyFloat 0))"
proof -
  assume ok: "snd (validate_parameters ep sp) = Inr ()"
  then have ne: "ep \<noteq> []" by (auto simp: validate_ok_iff)
  show ?thesis
    using ok ne
    by (simp add: init_def set_parameters_def ebind_def attr_def np_max_def np_min_def
        py_mul_int_def calc_min_dist_def fresh_def)
qed

theorem init_raises_type_error_witness:
  "snd (validate_parameters [(0,0,0),(1,0,0),(0,1,0),(0,0,1)] [0,0,0,0]) = Inr ()
   \<and> fst (init [(0,0,0),(1,0,0),(0,1,0),(0,0,1)] [0,0,0,0] [''R_init'' \<mapsto> PyFloat 1])
       = Some TypeError"
  using init_raises_type_error
    [of "[(0,0,0),(1,0,0),(0,1,0),(0,0,1)]" "[0,0,0,0]" "[''R_init'' \<mapsto> PyFloat 1]"]
  by (simp add: validate_parameters_def)

lemma init_never_completes: "fst (init ep sp p) \<noteq> None"
proof (cases "snd (validate_parameters ep sp)")
  case (Inl e)
  then show ?thesis by (simp add: init_def)
next
  case (Inr u)
  then have ok: "snd (validate_parameters ep sp) = Inr ()" by simp
  then have ne: "ep \<noteq> []" by (auto simp: validate_ok_iff)
  show ?thesis
    using ok ne
    by (simp add: init_def set_parameters_def ebind_def attr_def np_max_def np_min_def
        py_mul_int_def calc_min_dist_def fresh_def)
qed

section \<open>Properties of the arrays\<close>

lemma length_rows: "length (concat (map (\<lambda>i. map (f i) [0..<c]) [0..<r])) = r * c"
  by (induction r) simp_all

lemma flat_index: "i < r \<Longrightarrow> j < c \<Longrightarrow> i * c + j < r * (c::nat)"
proof -
  assume a: "i < r" "j < c"
  then have "i * c + j < Suc i * c" by simp
  also have "\<dots> \<le> r * c" using a(1) by (intro mult_le_mono1) simp
  finally show ?thesis .
qed

lemma nth_rows:
  "i < r \<Longrightarrow> j < c \<Longrightarrow> concat (map (\<lambda>i. map (f i) [0..<c]) [0..<r]) ! (i * c + j) = f i j"
proof (induction r)
  case 0
  then show ?case by simp
next
  case (Suc r)
  show ?case
  proof (cases "i < r")
    case True
    then have "i * c + j < r * c" using Suc.prems(2) by (rule flat_index)
    then show ?thesis using Suc.IH [OF True Suc.prems(2)]
      by (simp add: nth_append length_rows)
  next
    case False
    then have "i = r" using Suc.prems(1) by simp
    then show ?thesis using Suc.prems(2)
      by (simp add: nth_append length_rows)
  qed
qed

lemma nrows_tabulate2 [simp]: "nrows (tabulate2 r c f) = r"
  by (simp add: tabulate2_def)

lemma ncols_tabulate2 [simp]: "ncols (tabulate2 r c f) = c"
  by (simp add: tabulate2_def)

lemma length_elems_tabulate2 [simp]: "length (elems (tabulate2 r c f)) = r * c"
  by (simp add: tabulate2_def length_rows)

lemma entry_tabulate2: "i < r \<Longrightarrow> j < c \<Longrightarrow> entry (tabulate2 r c f) i j = f i j"
  by (simp add: entry_def tabulate2_def nth_rows)

lemma tabulate2_cong:
  "(\<And>i j. i < r \<Longrightarrow> j < c \<Longrightarrow> f i j = g i j) \<Longrightarrow> tabulate2 r c f = tabulate2 r c g"
  unfolding tabulate2_def
  by (auto intro!: arg_cong [where f = concat])

lemma sum_list_upt: "sum_list (map f [0..<n]) = (\<Sum>k<n. f k)"
  by (simp add: interv_sum_list_conv_sum_set_nat atLeast0LessThan)

lemma entry_transpose_m:
  "i < ncols m \<Longrightarrow> j < nrows m \<Longrightarrow> entry (transpose_m m) i j = entry m j i"
  by (simp add: transpose_m_def entry_tabulate2)

lemma gram_matrix:
  "dot_mm (transpose_m b) b =
     Inr (tabulate2 (ncols b) (ncols b) (\<lambda>i j. \<Sum>k<nrows b. entry b k i * entry b k j))"
proof -
  have "tabulate2 (ncols b) (ncols b)
          (\<lambda>i j. sum_list (map (\<lambda>k. entry (transpose_m b) i k * entry b k j) [0..<nrows b]))
      = tabulate2 (ncols b) (ncols b) (\<lambda>i j. \<Sum>k<nrows b. entry b k i * entry b k j)"
    by (rule tabulate2_cong) (simp add: sum_list_upt entry_transpose_m)
  then show ?thesis by (simp add: dot_mm_def transpose_m_def)
qed

lemma run_keeps:
  "(\<And>c s s'. c \<in> set cs \<Longrightarrow> c s = Inr s' \<Longrightarrow> f s' = f s) \<Longrightarrow> f (snd (run cs s)) = f s"
proof (induction cs arbitrary: s)
  case Nil
  then show ?case by simp
next
  case (Cons c cs)
  show ?case
  proof (cases "c s")
    case (Inl e)
    then show ?thesis by simp
  next
    case (Inr s')
    have "f (snd (run cs s')) = f s'"
    proof (rule Cons.IH)
      fix d t t'
      assume "d \<in> set cs" "d t = Inr t'"
      then show "f t' = f t" using Cons.prems [of d t t'] by simp
    qed
    moreover have "f s' = f s"
      using Cons.prems [of c s s'] Inr by simp
    ultimately show ?thesis using Inr by simp
  qed
qed


section \<open>Properties of the kernel matrices\<close>

lemma calculate_matrices_k_pot:
  assumes "b_pot_matrix s = Some b"
  shows "k_pot (snd (calculate_matrices s)) =
     Some (tabulate2 (ncols b) (ncols b) (\<lambda>i j. \<Sum>k<nrows b. entry b k i * entry b k j))"
proof -
  let ?k = "tabulate2 (ncols b) (ncols b) (\<lambda>i j. \<Sum>k<nrows b. entry b k i * entry b k j)"
  let ?rest = "[calculate_b_src_matrix, assign_k_interp_cross,
                calculate_b_interp_pot_matrix, assign_interp_pot]"
  have first: "calculate_matrices s = run ?rest (s\<lparr>k_pot := Some ?k\<rparr>)"
    using assms
    by (simp add: calculate_matrices_def create_dist_table_def calculate_b_pot_matrix_def
        calculate_b_pot_matrix_3D_def assign_k_pot_def attr_def gram_matrix ebind_def)
  have "k_pot (snd (run ?rest (s\<lparr>k_pot := Some ?k\<rparr>))) = k_pot (s\<lparr>k_pot := Some ?k\<rparr>)"
    by (rule run_keeps)
      (auto simp: calculate_b_src_matrix_def make_b_src_matrix_3D_def
        calculate_b_interp_pot_matrix_def make_b_interp_pot_matrix_3D_def
        assign_k_interp_cross_def assign_interp_pot_def ebind_def
        split: sum.splits)
  then show ?thesis by (simp add: first)
qed


text \<open>
  C5. For every matrix \<^verbatim>\<open>b_pot_matrix\<close>, \<^verbatim>\<open>calculate_matrices\<close> assigns to
  \<^verbatim>\<open>k_pot\<close> a square matrix, of the size of the number of columns of
  \<^verbatim>\<open>b_pot_matrix\<close>, whose entry \<open>(i, j)\<close> is the sum of the products of the
  entries \<open>(l, i)\<close> and \<open>(l, j)\<close> of \<^verbatim>\<open>b_pot_matrix\<close>, and so equals its entry
  \<open>(j, i)\<close>.
\<close>

theorem k_pot_symmetric:
  "b_pot_matrix s = Some b \<Longrightarrow>
   \<exists>k. k_pot (snd (calculate_matrices s)) = Some k
     \<and> nrows k = ncols b \<and> ncols k = ncols b
     \<and> (\<forall>i<ncols b. \<forall>j<ncols b.
          entry k i j = (\<Sum>l<nrows b. entry b l i * entry b l j) \<and> entry k i j = entry k j i)"
  by (auto simp: calculate_matrices_k_pot entry_tabulate2 mult.commute)

theorem k_pot_symmetric_witness:
  "\<exists>k. k_pot (snd (calculate_matrices sB)) = Some k \<and> nrows k = 2
     \<and> entry k 0 1 = 14 \<and> entry k 1 0 = 14"
proof -
  let ?b = "\<lparr>nrows = 2, ncols = 2, elems = [1, 2, 3, 4]\<rparr>"
  have "b_pot_matrix sB = Some ?b" by (simp add: sB_def fresh_def)
  from k_pot_symmetric [OF this] obtain k where
    k: "k_pot (snd (calculate_matrices sB)) = Some k" "nrows k = 2"
    and sym: "\<forall>i<2. \<forall>j<2.
          entry k i j = (\<Sum>l<2. entry ?b l i * entry ?b l j) \<and> entry k i j = entry k j i"
    by auto
  have "entry k 0 1 = (\<Sum>l<2. entry ?b l 0 * entry ?b l 1) \<and> entry k 0 1 = entry k 1 0"
    using sym [rule_format, of 0 1] by simp
  then have "entry k 0 1 = 14" "entry k 1 0 = 14"
    by (simp_all add: entry_def numeral_2_eq_2)
  with k show ?thesis by blast
qed


section \<open>Properties of the estimators\<close>

lemma nrows_scalar_mul [simp]: "nrows (scalar_mul c m) = nrows m"
  by (simp add: scalar_mul_def)

lemma ncols_scalar_mul [simp]: "ncols (scalar_mul c m) = ncols m"
  by (simp add: scalar_mul_def)

lemma entry_scalar_mul:
  "length (elems m) = nrows m * ncols m \<Longrightarrow> i < nrows m \<Longrightarrow> j < ncols m \<Longrightarrow>
   entry (scalar_mul c m) i j = c * entry m i j"
  using flat_index [of i "nrows m" j "ncols m"]
  by (simp add: entry_def scalar_mul_def)

lemma entry_identity: "i < n \<Longrightarrow> j < n \<Longrightarrow> entry (identity n) i j = (if i = j then 1 else 0)"
  by (simp add: identity_def entry_tabulate2)

lemma identity_dims [simp]:
  "nrows (identity n) = n" "ncols (identity n) = n" "length (elems (identity n)) = n * n"
  by (simp_all add: identity_def)

lemma regularized_square:
  assumes "nrows k = n" "ncols k = n"
  shows "regularized k (PyFloat l) =
     Inr (tabulate2 n n (\<lambda>i j. entry k i j + (if i = j then l else 0)))"
proof -
  have "tabulate2 n n (\<lambda>i j.
            entry k (if nrows k = 1 then 0 else i) (if ncols k = 1 then 0 else j)
          + entry (scalar_mul l (identity n))
              (if nrows (scalar_mul l (identity n)) = 1 then 0 else i)
              (if ncols (scalar_mul l (identity n)) = 1 then 0 else j))
      = tabulate2 n n (\<lambda>i j. entry k i j + (if i = j then l else 0))"
    by (rule tabulate2_cong) (use assms in \<open>auto simp: entry_scalar_mul entry_identity\<close>)
  then show ?thesis
    using assms by (simp add: regularized_def as_float_def ebind_def np_add_def bdim_def)
qed

lemma solves_system:
  fixes a b :: "nat \<Rightarrow> nat \<Rightarrow> real"
  assumes inv: "\<And>j. j < n \<Longrightarrow> (\<Sum>m<n. a i m * b m j) = (if i = j then 1 else 0)" and "i < n"
  shows "(\<Sum>m<n. a i m * (\<Sum>j<n. b m j * y j)) = y i"
proof -
  have "(\<Sum>m<n. a i m * (\<Sum>j<n. b m j * y j)) = (\<Sum>m<n. \<Sum>j<n. a i m * b m j * y j)"
    by (simp add: sum_distrib_left mult.assoc)
  also have "\<dots> = (\<Sum>j<n. \<Sum>m<n. a i m * b m j * y j)"
    by (rule sum.swap)
  also have "\<dots> = (\<Sum>j<n. (\<Sum>m<n. a i m * b m j) * y j)"
    by (simp add: sum_distrib_right)
  also have "\<dots> = (\<Sum>j<n. (if i = j then 1 else 0) * y j)"
    by (rule sum.cong) (simp_all add: inv)
  also have "\<dots> = y i"
    using \<open>i < n\<close> by (simp add: if_distrib [of "\<lambda>x. x * _"] cong: if_cong)
  finally show ?thesis .
qed


text \<open>
  C1. Let \<^verbatim>\<open>k_pot\<close> be an \<open>n\<close> by \<open>n\<close> matrix, \<^verbatim>\<open>lambd\<close> a float \<open>l\<close> and
  \<^verbatim>\<open>sampled_pots\<close> a vector \<open>y\<close> of length \<open>n\<close>. The matrix handed to
  \<^verbatim>\<open>np.linalg.inv\<close> has the entries of \<^verbatim>\<open>k_pot\<close> with \<open>l\<close> added on the diagonal;
  when \<^verbatim>\<open>np.linalg.inv\<close> returns an inverse \<open>k_inv\<close> of it, both
  \<^verbatim>\<open>estimate_pots\<close> and \<^verbatim>\<open>estimate_csd\<close> go on with the weight vector
  \<open>beta = k_inv \<cdot> y\<close>, which solves \<open>(k_pot + l \<cdot> I) \<cdot> beta = y\<close>.
\<close>

theorem weights_regularized_inverse:
  assumes k: "k_pot s = Some k" "nrows k = n" "ncols k = n"
    and l: "lambd s = Some (PyFloat l)"
    and y: "sampled_pots s = Some y" "length y = n"
    and inv: "linalg_inv (tabulate2 n n (\<lambda>i j. entry k i j + (if i = j then l else 0))) = Inr k_inv"
      "nrows k_inv = n" "ncols k_inv = n"
    and right_inverse:
      "\<forall>i<n. \<forall>j<n. (\<Sum>m<n. (entry k i m + (if i = m then l else 0)) * entry k_inv m j)
          = (if i = j then 1 else 0)"
  shows "\<exists>beta. weights linalg_inv s = Inr beta \<and> length beta = n
      \<and> (\<forall>i<n. beta ! i = (\<Sum>j<n. entry k_inv i j * y ! j))
      \<and> (\<forall>i<n. (\<Sum>m<n. (entry k i m + (if i = m then l else 0)) * beta ! m) = y ! i)
      \<and> fst (estimate_pots linalg_inv s)
          = ebind (attr (interp_pot s) ''interp_pot'') (\<lambda>t. pots_output s t beta)
      \<and> fst (estimate_csd linalg_inv s)
          = ebind (attr (k_interp_cross s) ''k_interp_cross'') (\<lambda>t. csd_output s t beta)"
proof -
  let ?beta = "map (\<lambda>i. \<Sum>j<n. entry k_inv i j * y ! j) [0..<n]"
  have w: "weights linalg_inv s = Inr ?beta"
    using k l y inv
    by (simp add: weights_def attr_def ebind_def regularized_square [of k n l] dot_mv_def
        sum_list_upt)
  have sol: "(\<Sum>m<n. (entry k i m + (if i = m then l else 0)) * ?beta ! m) = y ! i" if "i < n" for i
  proof -
    have "(\<Sum>m<n. (entry k i m + (if i = m then l else 0)) * ?beta ! m)
        = (\<Sum>m<n. (entry k i m + (if i = m then l else 0)) * (\<Sum>j<n. entry k_inv m j * y ! j))"
      by (rule sum.cong) simp_all
    also have "\<dots> = y ! i"
      by (rule solves_system [where a = "\<lambda>i m. entry k i m + (if i = m then l else 0)"])
        (use right_inverse that in auto)
    finally show ?thesis .
  qed
  have p: "fst (estimate_pots linalg_inv s)
      = ebind (attr (interp_pot s) ''interp_pot'') (\<lambda>t. pots_output s t ?beta)"
    by (simp add: estimate_pots_def w ebind_def split: sum.splits)
  have c: "fst (estimate_csd linalg_inv s)
      = ebind (attr (k_interp_cross s) ''k_interp_cross'') (\<lambda>t. csd_output s t ?beta)"
    by (simp add: estimate_csd_def w ebind_def split: sum.splits)
  show ?thesis
    using w sol p c by (intro exI [of _ ?beta]) simp
qed

theorem weights_regularized_inverse_witness:
  "\<exists>beta. weights halves sW = Inr beta \<and> beta ! 0 = 1 \<and> beta ! 1 = 2
     \<and> fst (estimate_csd halves sW) = Inl (AttributeError ''k_interp_cross'')"
proof -
  let ?k = "\<lparr>nrows = 2, ncols = 2, elems = [1, 0, 0, 1]\<rparr>"
  let ?ki = "\<lparr>nrows = 2, ncols = 2, elems = [1 / 2, 0, 0, 1 / 2]\<rparr>"
  have ri: "\<forall>i<2. \<forall>j<2. (\<Sum>m<2. (entry ?k i m + (if i = m then 1 else 0)) * entry ?ki m j)
          = (if i = j then 1 else 0)"
    by (simp add: entry_def numeral_2_eq_2 less_Suc_eq)
  from weights_regularized_inverse [of sW ?k 2 1 "[2, 4]" halves ?ki, OF _ _ _ _ _ _ _ _ _ ri]
  obtain beta where
    b: "weights halves sW = Inr beta"
      "\<forall>i<2. beta ! i = (\<Sum>j<2. entry ?ki i j * [2, 4] ! j)"
      "fst (estimate_csd halves sW)
          = ebind (attr (k_interp_cross sW) ''k_interp_cross'') (\<lambda>t. csd_output sW t beta)"
    by (auto simp: sW_def fresh_def halves_def)
  have "beta ! 0 = 1" "beta ! 1 = 2"
    using b(2) [rule_format, of 0] b(2) [rule_format, of 1]
    by (simp_all add: entry_def numeral_2_eq_2)
  moreover have "fst (estimate_csd halves sW) = Inl (AttributeError ''k_interp_cross'')"
    using b(3) by (simp add: sW_def fresh_def attr_def ebind_def)
  ultimately show ?thesis using b(1) by blast
qed

section \<open>Properties of the estimation grid\<close>

lemma linspace_length: "2 \<le> py_trunc num \<Longrightarrow> length (linspace a b num) = nat (py_trunc num)"
  by (simp add: linspace_def Let_def)

lemma linspace_last: "2 \<le> py_trunc num \<Longrightarrow> last (linspace a b num) = b"
  by (simp add: linspace_def Let_def last_list_update)

text \<open>
  C3 does not hold of lines 76 to 78: the third axis is
  \<^verbatim>\<open>np.linspace(self.zmin, self.ymax, ...)\<close>. With the volume \<open>[0, 1] \<times> [0, 2] \<times> [0, 4]\<close>
  and the spacing 1 on every axis, the z coordinates are five points from 0 to 2, half
  a unit apart, where the claim has them from 0 to 4, one unit apart.
\<close>

theorem grid_z_axis_stops_at_ymax:
  "grid_axes (PyFloat 0) (PyFloat 1) (PyFloat 0) (PyFloat 2) (PyFloat 0) (PyFloat 4)
      (PyFloat 1) (PyFloat 1) (PyFloat 1)
   = Inr ([0, 1], [0, 1, 2], [0, 1 / 2, 1, 3 / 2, 2])"
  by (simp add: grid_axes_def grid_axis_def ebind_def py_sub_def py_div_def py_add_def
      as_float_def linspace_def py_trunc_def Let_def eval_nat_numeral)

section \<open>The shape of the estimated fields\<close>

lemma accumulate_length:
  "accumulate beta t is out = Inr out' \<Longrightarrow> length out' = length out"
proof (induction "is" arbitrary: out)
  case Nil
  then show ?case by simp
next
  case (Cons i "is")
  then show ?case
    by (auto simp: ebind_def iadd_def split: sum.splits if_splits)
qed

lemma estimate_pots_shape:
  "fst (estimate_pots li s) = Inr out \<Longrightarrow>
   \<exists>X nx ny nz. space_X s = Some X \<and> shape X = [nx, ny, nz] \<and> shape out = [nx, ny]"
  by (auto simp: estimate_pots_def pots_output_def ebind_def attr_def unpack3_def reshape_def
      split: sum.splits option.splits list.splits if_splits)

lemma estimate_csd_flat_only:
  "fst (estimate_csd li s) = Inr out \<Longrightarrow> space_X s = Some X \<Longrightarrow> shape X = [nx, ny, nz] \<Longrightarrow>
   nx * ny * nz = nx * ny"
  by (auto simp: estimate_csd_def csd_output_def ebind_def attr_def unpack3_def reshape_def
      split: sum.splits option.splits list.splits if_splits dest!: accumulate_length)

lemma w4: "weights half_identity (sG t) = Inr [1, 1, 1, 1]"
  by (simp add: weights_def sG_def fresh_def attr_def ebind_def regularized_def as_float_def
      np_add_def bdim_def half_identity_def dot_mv_def scalar_mul_def identity_def
      tabulate2_def entry_def eval_nat_numeral)

lemma sG_attrs:
  "interp_pot (sG t) = Some t" "k_interp_cross (sG t) = Some t"
  "space_X (sG t) = Some \<lparr>shape = [2, 2, 2], data = [0, 0, 1, 1, 0, 0, 1, 1]\<rparr>"
  "elec_pos (sG t) = Some [(0, 0, 0), (1, 0, 0), (0, 1, 0), (0, 0, 1)]"
  by (simp_all add: sG_def fresh_def)

lemma column_ones: "i < c \<Longrightarrow> column (ones r c) i = Inr (replicate r 1)"
  by (auto simp: column_def ones_def entry_tabulate2 intro!: nth_equalityI)

text \<open>
  C2 does not hold of the code. On a grid of shape \<open>(2, 2, 2)\<close> with four electrodes, both
  estimators raise ValueError when the estimation table has a row for each of the eight
  grid points: the output buffer has \<open>nx \<cdot> ny\<close> entries. With a table of \<open>nx \<cdot> ny\<close>
  rows, \<^verbatim>\<open>estimate_pots\<close> returns an array of shape \<open>(2, 2)\<close> and
  \<^verbatim>\<open>estimate_csd\<close> raises ValueError in \<^verbatim>\<open>reshape\<close>.
\<close>

theorem estimators_miss_grid_shape:
  "fst (estimate_pots half_identity (sG (ones 8 4))) = Inl ValueError
   \<and> fst (estimate_csd half_identity (sG (ones 8 4))) = Inl ValueError
   \<and> fst (estimate_pots half_identity (sG (ones 4 4))) = Inr \<lparr>shape = [2, 2], data = [4, 4, 4, 4]\<rparr>
   \<and> fst (estimate_csd half_identity (sG (ones 4 4))) = Inl ValueError"
  by (simp add: estimate_pots_def estimate_csd_def w4 pots_output_def csd_output_def
      sG_attrs attr_def ebind_def unpack3_def item_def column_ones iadd_def
      reshape_def eval_nat_numeral)

section \<open>Properties of the cross-validation\<close>

lemma reads_onlyD:
  "reads_only cv \<Longrightarrow> cv lam y k n nf w = (r, y', k', w') \<Longrightarrow> y' = y \<and> k' = k"
  unfolding reads_only_def by (metis fst_conv snd_conv)

lemma inner_loop_frame:
  "reads_only cv \<Longrightarrow> fst (snd (inner_loop cv lam nf js ei s w)) = s"
proof (induction js arbitrary: ei w)
  case Nil
  then show ?case by simp
next
  case (Cons j js)
  show ?case
  proof (cases "sampled_pots s")
    case None then show ?thesis by (simp add: attr_def)
  next
    case (Some y)
    note y = this
    show ?thesis
    proof (cases "k_pot s")
      case None then show ?thesis using y by (simp add: attr_def)
    next
      case (Some k)
      note k = this
      show ?thesis
      proof (cases "elec_pos s")
        case None then show ?thesis using y k by (simp add: attr_def)
      next
        case (Some ep)
        obtain r y' k' w' where c: "cv lam y k (length ep) nf w = (r, y', k', w')"
          by (metis prod_cases4)
        have same: "y' = y" "k' = k" using reads_onlyD [OF Cons.prems c] by simp_all
        have upd: "s\<lparr>sampled_pots := Some y, k_pot := Some k\<rparr> = s" using y k by simp
        show ?thesis
          using y k Some c same Cons.IH [OF Cons.prems]
          by (cases r) (simp_all add: attr_def upd)
      qed
    qed
  qed
qed

lemma outer_loop_frame:
  "reads_only cv \<Longrightarrow> fst (snd (outer_loop cv nf n ils errs ei s w)) = s"
proof (induction ils arbitrary: errs ei w)
  case Nil
  then show ?case by simp
next
  case (Cons il ils)
  obtain i lam where il: "il = (i, lam)" by (cases il)
  obtain r s' w' where inner: "inner_loop cv lam nf [0..<n] ei s w = (r, s', w')"
    by (metis prod_cases3)
  have "s' = s" using inner_loop_frame [OF Cons.prems, of lam nf "[0..<n]" ei s w] inner by simp
  then show ?case
    using il inner Cons.IH [OF Cons.prems]
    by (cases r) simp_all
qed

lemma cross_validation_reads_only: "reads_only (cross_validation fe)"
  by (simp add: reads_only_def cross_validation_def split: prod.splits)

lemma sG_more: "sampled_pots (sG t) = Some [2, 2, 2, 2]" "k_pot (sG t) = Some (identity 4)"
  by (simp_all add: sG_def fresh_def)

text \<open>
  C9. When \<^verbatim>\<open>cross_validation\<close> does not write to the two arrays it is handed,
  \<^verbatim>\<open>choose_lambda\<close> leaves the object as it was, every attribute of it, whether it
  returns or raises: \<^verbatim>\<open>choose_lambda\<close> itself assigns to no attribute.
\<close>

theorem choose_lambda_frame:
  "reads_only cv \<Longrightarrow> fst (snd (choose_lambda cv lams n_folds n_iter s w)) = s"
proof -
  assume ro: "reads_only cv"
  have "fst (snd (cv_errors cv lams n_folds n_iter s w)) = s"
    using outer_loop_frame [OF ro] by (simp add: cv_errors_def)
  then show ?thesis
    by (auto simp: choose_lambda_def split: prod.splits sum.splits)
qed

theorem choose_lambda_frame_witness:
  "reads_only (cross_validation tie_error)
   \<and> fst (snd (choose_lambda (cross_validation tie_error) [1, 1 / 2, 1 / 4] 2 1 (sG (ones 4 4)) ()))
       = sG (ones 4 4)"
  using choose_lambda_frame [of "cross_validation tie_error" "[1, 1 / 2, 1 / 4]" 2 1 "sG (ones 4 4)" "()"]
    cross_validation_reads_only [of tie_error]
  by simp

text \<open>
  C7, as amended. On an object whose attributes \<^verbatim>\<open>sampled_pots\<close>, \<^verbatim>\<open>k_pot\<close> and
  \<^verbatim>\<open>elec_pos\<close> are assigned, a call of \<^verbatim>\<open>choose_lambda\<close> with at least one candidate
  and \<open>n_iter \<ge> 1\<close>, and with a fold count below one or above the number of electrodes,
  raises InvalidFoldCountError, out of the first call of \<^verbatim>\<open>cross_validation\<close>, and
  leaves the object as it was.
\<close>

theorem invalid_fold_count_raises:
  assumes bad: "n_folds < 1 \<or> int (length ep) < n_folds"
    and ne: "lams \<noteq> []" and it: "0 < n_iter"
    and attrs: "sampled_pots s = Some y" "k_pot s = Some k" "elec_pos s = Some ep"
  shows "choose_lambda (cross_validation fe) lams n_folds n_iter s w
           = (Inl InvalidFoldCountError, s, w)"
proof -
  obtain l ls where lams: "lams = l # ls" using ne by (cases lams) auto
  have js: "[0..<nat n_iter] = 0 # [1..<nat n_iter]" using it by (simp add: upt_conv_Cons)
  have upd: "s\<lparr>sampled_pots := Some y, k_pot := Some k\<rparr> = s" using attrs by simp
  have "inner_loop (cross_validation fe) l n_folds (0 # [1..<nat n_iter]) ei s w
          = (Inl InvalidFoldCountError, s, w)" for ei
    using bad attrs by (auto simp: attr_def cross_validation_def upd)
  then have "cv_errors (cross_validation fe) lams n_folds n_iter s w
          = (Inl InvalidFoldCountError, s, w)"
    using it by (simp add: cv_errors_def lams js)
  then show ?thesis by (simp add: choose_lambda_def)
qed

theorem invalid_fold_count_raises_witness:
  "choose_lambda (cross_validation tie_error) [1, 1 / 2] 0 1 (sG (ones 4 4)) ()
     = (Inl InvalidFoldCountError, sG (ones 4 4), ())
   \<and> choose_lambda (cross_validation tie_error) [1, 1 / 2] 5 1 (sG (ones 4 4)) ()
     = (Inl InvalidFoldCountError, sG (ones 4 4), ())"
  using invalid_fold_count_raises [of 0 "[(0, 0, 0), (1, 0, 0), (0, 1, 0), (0, 0, 1)]"
      "[1, 1 / 2]" 1 "sG (ones 4 4)" "[2, 2, 2, 2]" "identity 4" tie_error "()"]
    invalid_fold_count_raises [of 5 "[(0, 0, 0), (1, 0, 0), (0, 1, 0), (0, 0, 1)]"
      "[1, 1 / 2]" 1 "sG (ones 4 4)" "[2, 2, 2, 2]" "identity 4" tie_error "()"]
  by (simp add: sG_attrs sG_more)

text \<open>
  C7 as stated fails: \<^verbatim>\<open>choose_lambda\<close> has no check of the fold count of its own.
  With no candidate, \<^verbatim>\<open>cross_validation\<close> is not called and \<^verbatim>\<open>min\<close> raises
  ValueError; with \<open>n_iter = 0\<close> every mean is not-a-number, the mask selects nothing and
  the indexing raises IndexError.
\<close>

theorem no_candidates_no_fold_check:
  "fst (choose_lambda (cross_validation tie_error) [] 0 1 (sG (ones 4 4)) ()) = Inl ValueError
   \<and> fst (choose_lambda (cross_validation tie_error) [1, 1 / 2] 0 0 (sG (ones 4 4)) ())
       = Inl IndexError"
  by (simp add: choose_lambda_def cv_errors_def py_min_def ebind_def
      np_mean_def py_lt_def py_eq_def masked_def item_def)

section \<open>The candidate chosen by the cross-validation\<close>

lemma inner_loop_length:
  "inner_loop cv lam nf js ei s w = (Inr ei', s', w') \<Longrightarrow> length ei' = length ei"
proof (induction js arbitrary: ei s w)
  case Nil
  then show ?case by simp
next
  case (Cons j js)
  then show ?case
    by (auto simp: Let_def split: sum.splits prod.splits)
qed

lemma outer_loop_numbers:
  assumes "outer_loop cv nf n ils errs ei s w = (Inr errs', s', w')"
    and "0 < length ei" and "None \<notin> set errs"
  shows "length errs' = length errs \<and> None \<notin> set errs'"
  using assms
proof (induction ils arbitrary: errs ei s w)
  case Nil
  then show ?case by simp
next
  case (Cons il ils)
  obtain i lam where il: "il = (i, lam)" by (cases il)
  obtain r s1 w1 where inner: "inner_loop cv lam nf [0..<n] ei s w = (r, s1, w1)"
    by (metis prod_cases3)
  show ?case
  proof (cases r)
    case (Inl e)
    then show ?thesis using Cons.prems(1) il inner by simp
  next
    case (Inr ei1)
    have len: "length ei1 = length ei"
      using inner Inr by (simp add: inner_loop_length [of cv lam nf "[0..<n]" ei s w ei1 s1 w1])
    then have "ei1 \<noteq> []" using Cons.prems(2) by auto
    then obtain v where mean: "np_mean ei1 = Some v" by (simp add: np_mean_def)
    have rest: "outer_loop cv nf n ils (errs[i := Some v]) ei1 s1 w1 = (Inr errs', s', w')"
      using Cons.prems(1) il inner Inr mean by simp
    have "None \<notin> set (errs[i := Some v])"
      using Cons.prems(3) set_update_subset_insert [of errs i "Some v"] by auto
    from Cons.IH [OF rest _ this] len Cons.prems(2) show ?thesis by simp
  qed
qed

lemma foldl_py_min:
  "None \<notin> set xs \<Longrightarrow>
   \<exists>m. foldl (\<lambda>m y. if py_lt y m then y else m) (Some x) xs = Some m
     \<and> Some m \<in> set (Some x # xs) \<and> m \<le> x \<and> (\<forall>v. Some v \<in> set xs \<longrightarrow> m \<le> v)"
proof (induction xs arbitrary: x)
  case Nil
  then show ?case by simp
next
  case (Cons a xs)
  then obtain v where a: "a = Some v" by (cases a) auto
  have nn: "None \<notin> set xs" using Cons.prems by simp
  show ?case
  proof (cases "v < x")
    case True
    from Cons.IH [OF nn, of v] obtain m where
      "foldl (\<lambda>m y. if py_lt y m then y else m) (Some v) xs = Some m"
      "Some m \<in> set (Some v # xs)" "m \<le> v" "\<forall>u. Some u \<in> set xs \<longrightarrow> m \<le> u"
      by blast
    then show ?thesis using True a by (auto simp: py_lt_def)
  next
    case False
    from Cons.IH [OF nn, of x] obtain m where
      "foldl (\<lambda>m y. if py_lt y m then y else m) (Some x) xs = Some m"
      "Some m \<in> set (Some x # xs)" "m \<le> x" "\<forall>u. Some u \<in> set xs \<longrightarrow> m \<le> u"
      by blast
    then show ?thesis using False a by (auto simp: py_lt_def)
  qed
qed

lemma py_min_numbers:
  assumes "errs \<noteq> []" "None \<notin> set errs"
  shows "\<exists>m. py_min errs = Inr (Some m) \<and> Some m \<in> set errs
           \<and> (\<forall>e\<in>set errs. \<exists>v. e = Some v \<and> m \<le> v)"
proof -
  obtain a xs where errs: "errs = a # xs" using assms(1) by (cases errs) auto
  then obtain x where a: "a = Some x" using assms(2) by (cases a) auto
  have nn: "None \<notin> set xs" using assms(2) errs by simp
  from foldl_py_min [OF nn, of x] obtain m where
    m: "foldl (\<lambda>m y. if py_lt y m then y else m) (Some x) xs = Some m"
      "Some m \<in> set (Some x # xs)" "m \<le> x" "\<forall>v. Some v \<in> set xs \<longrightarrow> m \<le> v"
    by blast
  have "\<exists>v. e = Some v \<and> m \<le> v" if e: "e \<in> set errs" for e
  proof -
    have "e \<noteq> None" by (metis e assms(2))
    then obtain v where "e = Some v" by auto
    then show ?thesis using e m(3,4) errs a by auto
  qed
  then show ?thesis using m(1,2) errs a by (auto simp: py_min_def)
qed

lemma masked_first:
  assumes "length xs = length bs" "True \<in> set bs"
  shows "\<exists>k<length xs. item (masked xs bs) 0 = Inr (xs ! k) \<and> bs ! k \<and> (\<forall>j<k. \<not> bs ! j)"
  using assms
proof (induction xs bs rule: list_induct2)
  case Nil
  then show ?case by simp
next
  case (Cons x xs b bs)
  show ?case
  proof (cases b)
    case True
    then show ?thesis by (auto simp: masked_def item_def intro!: exI [of _ 0])
  next
    case False
    then have "True \<in> set bs" using Cons.prems by auto
    from Cons.IH [OF this] obtain k where
      k: "k < length xs" "item (masked xs bs) 0 = Inr (xs ! k)" "bs ! k" "\<forall>j<k. \<not> bs ! j"
      by blast
    have "\<forall>j<Suc k. \<not> (b # bs) ! j"
      using False k(4) by (auto simp: less_Suc_eq_0_disj)
    then show ?thesis using False k
      by (auto simp: masked_def intro!: exI [of _ "Suc k"])
  qed
qed

lemma tie_run:
  "cv_errors (cross_validation tie_error) [1, 1 / 2, 1 / 4] 2 1 (sG t) ()
     = (Inr [Some 1, Some 0, Some 0], sG t, ())"
  by (simp add: cv_errors_def sG_def fresh_def attr_def cross_validation_def
      tie_error_def np_mean_def)

lemma first_minimum_of_errors:
  assumes run: "cv_errors cv lams n_folds n_iter s w = (Inr errors, s', w')"
    and ne: "lams \<noteq> []" and it: "0 < n_iter"
  shows "\<exists>k m. k < length lams
     \<and> choose_lambda cv lams n_folds n_iter s w = (Inr (lams ! k), s', w')
     \<and> errors ! k = Some m
     \<and> (\<forall>j<length lams. \<exists>e. errors ! j = Some e \<and> m \<le> e)
     \<and> (\<forall>j<k. errors ! j \<noteq> Some m)
     \<and> (sorted_wrt (\<ge>) lams \<longrightarrow> (\<forall>j<length lams. errors ! j = Some m \<longrightarrow> lams ! j \<le> lams ! k))"
proof -
  have outer: "outer_loop cv n_folds (nat n_iter) (enumerate 0 lams)
      (replicate (length lams) (Some 0)) (replicate (nat n_iter) 0) s w = (Inr errors, s', w')"
    using run it by (simp add: cv_errors_def)
  have "length errors = length (replicate (length lams) (Some (0::real))) \<and> None \<notin> set errors"
    by (rule outer_loop_numbers [OF outer]) (use it in auto)
  then have len: "length errors = length lams" and nn: "None \<notin> set errors" by simp_all
  then have "errors \<noteq> []" using ne by auto
  from py_min_numbers [OF this nn] obtain m where
    m: "py_min errors = Inr (Some m)" "Some m \<in> set errors"
      "\<forall>e\<in>set errors. \<exists>v. e = Some v \<and> m \<le> v"
    by blast
  let ?bs = "map (\<lambda>e. py_eq e (Some m)) errors"
  have "True \<in> set ?bs" using m(2) by (force simp: py_eq_def)
  moreover have "length lams = length ?bs" using len by simp
  ultimately obtain k where
    k: "k < length lams" "item (masked lams ?bs) 0 = Inr (lams ! k)" "?bs ! k" "\<forall>j<k. \<not> ?bs ! j"
    using masked_first [of lams ?bs] by blast
  have eq_iff: "?bs ! j \<longleftrightarrow> errors ! j = Some m" if "j < length lams" for j
    using that len by (auto simp: py_eq_def split: option.splits)
  have res: "choose_lambda cv lams n_folds n_iter s w = (Inr (lams ! k), s', w')"
    using run m(1) k(2) by (simp add: choose_lambda_def ebind_def)
  have at_k: "errors ! k = Some m" using k(1,3) eq_iff by blast
  have lower: "\<forall>j<length lams. \<exists>e. errors ! j = Some e \<and> m \<le> e"
    using m(3) len by (metis nth_mem)
  have first: "\<forall>j<k. errors ! j \<noteq> Some m"
    using k(1,4) eq_iff by (meson less_trans)
  have largest: "lams ! j \<le> lams ! k"
    if srt: "sorted_wrt (\<ge>) lams" and j: "j < length lams" "errors ! j = Some m" for j
  proof -
    have "\<not> j < k" using first j(2) by blast
    then consider "j = k" | "k < j" by linarith
    then show ?thesis
    proof cases
      case 1
      then show ?thesis by simp
    next
      case 2
      from sorted_wrt_nth_less [OF srt 2 j(1)] show ?thesis by simp
    qed
  qed
  show ?thesis
    using k(1) res at_k lower first largest by blast
qed

lemma first_of_tied_candidates:
  "choose_lambda (cross_validation tie_error) [1, 1 / 2, 1 / 4] 2 1 (sG (ones 4 4)) ()
     = (Inr (1 / 2), sG (ones 4 4), ())"
proof -
  let ?errors = "[Some 1, Some 0, Some (0::real)]"
  let ?lams = "[1, 1 / 2, 1 / (4::real)]"
  have "\<exists>k m. k < length ?lams
     \<and> choose_lambda (cross_validation tie_error) ?lams 2 1 (sG (ones 4 4)) ()
         = (Inr (?lams ! k), sG (ones 4 4), ())
     \<and> ?errors ! k = Some m
     \<and> (\<forall>j<length ?lams. \<exists>e. ?errors ! j = Some e \<and> m \<le> e)
     \<and> (\<forall>j<k. ?errors ! j \<noteq> Some m)
     \<and> (sorted_wrt (\<ge>) ?lams \<longrightarrow>
          (\<forall>j<length ?lams. ?errors ! j = Some m \<longrightarrow> ?lams ! j \<le> ?lams ! k))"
    by (rule first_minimum_of_errors [OF tie_run [of "ones 4 4"]]) simp_all
  then obtain k m where
    k: "k < length ?lams"
    and res: "choose_lambda (cross_validation tie_error) ?lams 2 1 (sG (ones 4 4)) ()
                = (Inr (?lams ! k), sG (ones 4 4), ())"
    and at_k: "?errors ! k = Some m"
    and lower: "\<forall>j<length ?lams. \<exists>e. ?errors ! j = Some e \<and> m \<le> e"
    and first: "\<forall>j<k. ?errors ! j \<noteq> Some m"
    by blast
  from lower [rule_format, of 1] have "m \<le> 0" by simp
  from k consider "k = 0" | "k = 1" | "k = 2" by (auto simp: less_Suc_eq)
  then have "k = 1"
  proof cases
    case 1
    then show ?thesis using at_k \<open>m \<le> 0\<close> by simp
  next
    case 2
    then show ?thesis .
  next
    case 3
    then have "m = 0" using at_k by simp
    then show ?thesis using first [rule_format, of 1] 3 by simp
  qed
  then show ?thesis using res by simp
qed

lemma default_lambdas_descending: "sorted_wrt (\<ge>) default_lambdas"
proof -
  have "(1::real) / 2 ^ j \<le> 1 / 2 ^ i" if "i < j" for i j :: nat
    using that by (simp add: frac_le power_increasing)
  then show ?thesis
    by (simp add: default_lambdas_def sorted_wrt_iff_nth_less)
qed

lemma inner_loop_total:
  assumes "\<And>lam y k n w. \<exists>v y' k' w'. cv lam y k n nf w = (Inr v, y', k', w')"
    and "sampled_pots s \<noteq> None" "k_pot s \<noteq> None" "elec_pos s \<noteq> None"
  shows "\<exists>ei' s' w'. inner_loop cv lam nf js ei s w = (Inr ei', s', w')
           \<and> sampled_pots s' \<noteq> None \<and> k_pot s' \<noteq> None \<and> elec_pos s' \<noteq> None"
  using assms(2-4)
proof (induction js arbitrary: ei s w)
  case Nil
  then show ?case by simp
next
  case (Cons j js)
  from Cons.prems obtain y k ep where
    a: "sampled_pots s = Some y" "k_pot s = Some k" "elec_pos s = Some ep"
    by auto
  from assms(1) [of lam y k "length ep" w] obtain v y' k' w' where
    c: "cv lam y k (length ep) nf w = (Inr v, y', k', w')"
    by blast
  let ?s = "s\<lparr>sampled_pots := Some y', k_pot := Some k'\<rparr>"
  have "\<exists>ei' s' w''. inner_loop cv lam nf js (ei[j := v]) ?s w' = (Inr ei', s', w'')
           \<and> sampled_pots s' \<noteq> None \<and> k_pot s' \<noteq> None \<and> elec_pos s' \<noteq> None"
    by (rule Cons.IH) (use a in simp_all)
  then show ?case using a c by (simp add: attr_def)
qed

lemma outer_loop_total:
  assumes "\<And>lam y k n w. \<exists>v y' k' w'. cv lam y k n nf w = (Inr v, y', k', w')"
    and "sampled_pots s \<noteq> None" "k_pot s \<noteq> None" "elec_pos s \<noteq> None"
  shows "\<exists>errs' s' w'. outer_loop cv nf n ils errs ei s w = (Inr errs', s', w')"
  using assms(2-4)
proof (induction ils arbitrary: errs ei s w)
  case Nil
  then show ?case by simp
next
  case (Cons il ils)
  obtain i lam where il: "il = (i, lam)" by (cases il)
  from inner_loop_total [where cv = cv and nf = nf and lam = lam and js = "[0..<n]"
      and ei = ei and w = w, OF assms(1) Cons.prems] obtain ei1 s1 w1 where
    inner: "inner_loop cv lam nf [0..<n] ei s w = (Inr ei1, s1, w1)"
    and a: "sampled_pots s1 \<noteq> None" "k_pot s1 \<noteq> None" "elec_pos s1 \<noteq> None"
    by blast
  from Cons.IH [OF a, of "errs[i := np_mean ei1]" ei1 w1] show ?case
    using il inner by simp
qed

lemma cv_errors_total:
  assumes "\<And>lam y k n w. \<exists>v y' k' w'. cv lam y k n n_folds w = (Inr v, y', k', w')"
    and "sampled_pots s \<noteq> None" "k_pot s \<noteq> None" "elec_pos s \<noteq> None"
    and "0 \<le> n_iter"
  shows "\<exists>errors s' w'. cv_errors cv lams n_folds n_iter s w = (Inr errors, s', w')"
  using outer_loop_total [where cv = cv and nf = n_folds, OF assms(1-4)] assms(5)
  by (simp add: cv_errors_def)

text \<open>
  When \<^verbatim>\<open>cross_validation\<close> is a function of the candidate alone, which neither
  raises nor writes, the mean error of a candidate is its value on the candidate.
\<close>

lemma inner_loop_pure:
  assumes pure: "\<And>w. cv lam y k (length ep) nf w = (Inr v, y, k, w)"
    and attrs: "sampled_pots s = Some y" "k_pot s = Some k" "elec_pos s = Some ep"
  shows "inner_loop cv lam nf js ei s w = (Inr (fold (\<lambda>j e. e[j := v]) js ei), s, w)"
proof (induction js arbitrary: ei)
  case Nil
  then show ?case by simp
next
  case (Cons j js)
  have upd: "s\<lparr>sampled_pots := Some y, k_pot := Some k\<rparr> = s" using attrs by simp
  show ?case using attrs pure [of w] Cons.IH by (simp add: attr_def upd)
qed

lemma fold_fill:
  "n \<le> length ei \<Longrightarrow> fold (\<lambda>j e. e[j := v]) [0..<n] ei = replicate n v @ drop n ei"
proof (induction n)
  case 0
  then show ?case by simp
next
  case (Suc n)
  then have n: "n < length ei" by simp
  have "fold (\<lambda>j e. e[j := v]) [0..<Suc n] ei = (replicate n v @ drop n ei)[n := v]"
    using Suc by simp
  also have "\<dots> = replicate n v @ (drop n ei)[0 := v]"
    by (simp add: list_update_append)
  also have "(drop n ei)[0 := v] = v # drop (Suc n) ei"
    using n by (simp add: Cons_nth_drop_Suc [symmetric])
  finally show ?case by (simp add: replicate_append_same)
qed

lemma np_mean_replicate: "0 < n \<Longrightarrow> np_mean (replicate n v) = Some v"
  by (simp add: np_mean_def sum_list_replicate)

lemma outer_loop_pure:
  assumes pure: "\<And>lam w. cv lam y k (length ep) nf w = (Inr (err lam), y, k, w)"
    and attrs: "sampled_pots s = Some y" "k_pot s = Some k" "elec_pos s = Some ep"
    and n: "0 < n"
  shows "length ei = n \<Longrightarrow>
    outer_loop cv nf n ils errs ei s w
      = (Inr (fold (\<lambda>il e. e[fst il := Some (err (snd il))]) ils errs), s, w)"
proof (induction ils arbitrary: errs ei)
  case Nil
  then show ?case by simp
next
  case (Cons il ils)
  obtain i lam where il: "il = (i, lam)" by (cases il)
  have inner: "inner_loop cv lam nf [0..<n] ei s w = (Inr (replicate n (err lam)), s, w)"
    using inner_loop_pure [where cv = cv and v = "err lam", OF pure attrs] Cons.prems
    by (simp add: fold_fill)
  show ?case
    using il inner n Cons.IH [of "replicate n (err lam)"]
    by (simp add: np_mean_replicate)
qed

lemma fold_enumerate:
  "k + length xs \<le> length errs \<Longrightarrow>
   fold (\<lambda>il e. e[fst il := f (snd il)]) (enumerate k xs) errs
     = take k errs @ map f xs @ drop (k + length xs) errs"
proof (induction xs arbitrary: k errs)
  case Nil
  then show ?case by simp
next
  case (Cons x xs)
  then have k: "k < length errs" by simp
  have "fold (\<lambda>il e. e[fst il := f (snd il)]) (enumerate k (x # xs)) errs
      = fold (\<lambda>il e. e[fst il := f (snd il)]) (enumerate (Suc k) xs) (errs[k := f x])"
    by simp
  also have "\<dots> = take (Suc k) (errs[k := f x]) @ map f xs
      @ drop (Suc k + length xs) (errs[k := f x])"
    using Cons.prems by (intro Cons.IH) simp
  also have "take (Suc k) (errs[k := f x]) = take k errs @ [f x]"
    using k by (simp add: take_Suc_conv_app_nth)
  also have "drop (Suc k + length xs) (errs[k := f x]) = drop (k + length (x # xs)) errs"
    by simp
  finally show ?case by simp
qed

lemma cv_errors_pure:
  assumes pure: "\<And>lam w. cv lam y k (length ep) n_folds w = (Inr (err lam), y, k, w)"
    and attrs: "sampled_pots s = Some y" "k_pot s = Some k" "elec_pos s = Some ep"
    and it: "0 < n_iter"
  shows "cv_errors cv lams n_folds n_iter s w = (Inr (map (\<lambda>lam. Some (err lam)) lams), s, w)"
proof -
  have "outer_loop cv n_folds (nat n_iter) (enumerate 0 lams)
          (replicate (length lams) (Some 0)) (replicate (nat n_iter) 0) s w
      = (Inr (fold (\<lambda>il e. e[fst il := Some (err (snd il))]) (enumerate 0 lams)
                (replicate (length lams) (Some 0))), s, w)"
    using outer_loop_pure [where cv = cv and err = err and n = "nat n_iter"
        and ei = "replicate (nat n_iter) 0", OF pure attrs] it
    by simp
  moreover have "fold (\<lambda>il e. e[fst il := Some (err (snd il))]) (enumerate 0 lams)
                (replicate (length lams) (Some 0)) = map (\<lambda>lam. Some (err lam)) lams"
    using fold_enumerate [of 0 lams "replicate (length lams) (Some 0)" "\<lambda>lam. Some (err lam)"]
    by simp
  ultimately show ?thesis using it by (simp add: cv_errors_def)
qed

section \<open>The mean errors and the chosen candidate\<close>










section \<open>Properties of the basis functions\<close>






















end
